theory Spec2Isabelle
  imports Complex_Main
begin

section \<open>Numbers and arrays as the program has them\<close>

text \<open>
  The program computes on numpy float64 scalars and on numpy arrays of three of them.
  A scalar is modelled as a real number or the value \<open>NaN\<close>: rounding and overflow are
  not modelled, the arithmetic on finite values is exact. \<open>NaN\<close> is what numpy returns
  for \<open>0 / 0\<close> (with a warning, not an exception), it is absorbing for every arithmetic
  operation and every comparison with it is false. A square root of a negative number
  and an arccos outside \<open>[-1, 1]\<close> are \<open>NaN\<close> as well.

  numpy returns an infinity for a nonzero number over zero. No division of this program
  can meet that case in exact arithmetic: a divisor is the norm of its own dividend
  (zero only when the dividend is zero, lemma \<open>linalg_norm_zero\<close>), the denominator
  that \<open>interaction\<close> has tested against \<open>1e-10\<close>, a square root of a number that is at
  least 1, or the literal 180. The model therefore has no infinities, and a division
  by zero is \<open>NaN\<close>.
\<close>

datatype npfloat = Fin real | NaN

instantiation npfloat :: "{plus, minus, uminus, times, inverse, abs, ord}"
begin

fun plus_npfloat :: "npfloat \<Rightarrow> npfloat \<Rightarrow> npfloat" where
  "plus_npfloat (Fin a) (Fin b) = Fin (a + b)"
| "plus_npfloat _ _ = NaN"

fun minus_npfloat :: "npfloat \<Rightarrow> npfloat \<Rightarrow> npfloat" where
  "minus_npfloat (Fin a) (Fin b) = Fin (a - b)"
| "minus_npfloat _ _ = NaN"

fun uminus_npfloat :: "npfloat \<Rightarrow> npfloat" where
  "uminus_npfloat (Fin a) = Fin (- a)"
| "uminus_npfloat NaN = NaN"

fun times_npfloat :: "npfloat \<Rightarrow> npfloat \<Rightarrow> npfloat" where
  "times_npfloat (Fin a) (Fin b) = Fin (a * b)"
| "times_npfloat _ _ = NaN"

fun divide_npfloat :: "npfloat \<Rightarrow> npfloat \<Rightarrow> npfloat" where
  "divide_npfloat (Fin a) (Fin b) = (if b = 0 then NaN else Fin (a / b))"
| "divide_npfloat _ _ = NaN"

fun inverse_npfloat :: "npfloat \<Rightarrow> npfloat" where
  "inverse_npfloat (Fin a) = (if a = 0 then NaN else Fin (inverse a))"
| "inverse_npfloat NaN = NaN"

fun abs_npfloat :: "npfloat \<Rightarrow> npfloat" where
  "abs_npfloat (Fin a) = Fin \<bar>a\<bar>"
| "abs_npfloat NaN = NaN"

fun less_npfloat :: "npfloat \<Rightarrow> npfloat \<Rightarrow> bool" where
  "less_npfloat (Fin a) (Fin b) = (a < b)"
| "less_npfloat _ _ = False"

fun less_eq_npfloat :: "npfloat \<Rightarrow> npfloat \<Rightarrow> bool" where
  "less_eq_npfloat (Fin a) (Fin b) = (a \<le> b)"
| "less_eq_npfloat _ _ = False"

instance ..

end

text \<open>\<open>np.sqrt\<close>, \<open>np.cos\<close>, \<open>np.sin\<close>, \<open>np.arccos\<close> and \<open>x ** 2\<close>.\<close>

fun np_sqrt :: "npfloat \<Rightarrow> npfloat" where
  "np_sqrt (Fin a) = (if a < 0 then NaN else Fin (sqrt a))"
| "np_sqrt NaN = NaN"

fun np_cos :: "npfloat \<Rightarrow> npfloat" where
  "np_cos (Fin a) = Fin (cos a)"
| "np_cos NaN = NaN"

fun np_sin :: "npfloat \<Rightarrow> npfloat" where
  "np_sin (Fin a) = Fin (sin a)"
| "np_sin NaN = NaN"

fun np_arccos :: "npfloat \<Rightarrow> npfloat" where
  "np_arccos (Fin a) = (if \<bar>a\<bar> \<le> 1 then Fin (arccos a) else NaN)"
| "np_arccos NaN = NaN"

definition np_pi :: npfloat where
  "np_pi = Fin pi"

definition sq :: "npfloat \<Rightarrow> npfloat" where
  "sq x = x * x"

text \<open>An array of shape (3,), with numpy's elementwise arithmetic.\<close>

datatype arr = Arr npfloat npfloat npfloat

instantiation arr :: "{plus, minus}"
begin

fun plus_arr :: "arr \<Rightarrow> arr \<Rightarrow> arr" where
  "plus_arr (Arr a b c) (Arr x y z) = Arr (a + x) (b + y) (c + z)"

fun minus_arr :: "arr \<Rightarrow> arr \<Rightarrow> arr" where
  "minus_arr (Arr a b c) (Arr x y z) = Arr (a - x) (b - y) (c - z)"

instance ..

end

text \<open>\<open>s * v\<close> and \<open>v / s\<close> for a scalar \<open>s\<close> and an array \<open>v\<close>.\<close>

fun scale :: "npfloat \<Rightarrow> arr \<Rightarrow> arr" where
  "scale s (Arr x y z) = Arr (s * x) (s * y) (s * z)"

fun divs :: "arr \<Rightarrow> npfloat \<Rightarrow> arr" where
  "divs (Arr x y z) s = Arr (x / s) (y / s) (z / s)"

text \<open>\<open>np.dot\<close>, \<open>np.cross\<close> and \<open>np.linalg.norm\<close>.\<close>

fun dot :: "arr \<Rightarrow> arr \<Rightarrow> npfloat" where
  "dot (Arr a b c) (Arr x y z) = a * x + b * y + c * z"

fun cross :: "arr \<Rightarrow> arr \<Rightarrow> arr" where
  "cross (Arr a b c) (Arr x y z) = Arr (b * z - c * y) (c * x - a * z) (a * y - b * x)"

fun linalg_norm :: "arr \<Rightarrow> npfloat" where
  "linalg_norm (Arr x y z) = np_sqrt (x * x + y * y + z * z)"

section \<open>Ray.py\<close>

text \<open>
  \<open>rotate_vector_around_axis\<close>: both arguments are divided by their norms, then
  Rodrigues' formula is applied.
\<close>

definition rotate_vector_around_axis :: "arr \<Rightarrow> arr \<Rightarrow> npfloat \<Rightarrow> arr" where
  "rotate_vector_around_axis vec axis theta =
     (let vec1 = divs vec (linalg_norm vec);
          axis1 = divs axis (linalg_norm axis)
      in scale (np_cos theta) vec1 + scale (np_sin theta) (cross axis1 vec1)
           + scale (Fin 1 - np_cos theta) (scale (dot axis1 vec1) axis1))"

text \<open>The class \<open>Ray\<close>: its two attributes, and its methods as state transformers.\<close>

record Ray =
  position :: arr
  direction :: arr

definition Ray_init :: "arr \<Rightarrow> arr \<Rightarrow> Ray" where
  "Ray_init pos dir = \<lparr>position = pos, direction = divs dir (linalg_norm dir)\<rparr>"

definition point_at_parameter :: "Ray \<Rightarrow> npfloat \<Rightarrow> arr" where
  "point_at_parameter r t = position r + scale t (direction r)"

definition move :: "Ray \<Rightarrow> npfloat \<Rightarrow> Ray" where
  "move r L = r\<lparr>position := position r + scale L (direction r)\<rparr>"

definition reflection :: "Ray \<Rightarrow> arr \<Rightarrow> Ray" where
  "reflection r n =
     (let n1 = divs n (linalg_norm n)
      in r\<lparr>direction := direction r - scale (Fin 2 * dot (direction r) n1) n1\<rparr>)"

definition refraction :: "Ray \<Rightarrow> npfloat \<Rightarrow> arr \<Rightarrow> Ray" where
  "refraction r k n =
     (let n1 = divs n (linalg_norm n);
          cos_theta = - dot (direction r) n1;
          acos_theta = (if Fin 1 \<le> \<bar>cos_theta\<bar> then Fin 0 else np_arccos cos_theta);
          term1 = k * acos_theta / np_sqrt (Fin 1 + sq k * sq acos_theta);
          vertical_direction =
            scale (Fin (- 1) * (Fin 1 / np_sqrt (Fin 1 + sq k * sq acos_theta))) n1;
          parallel_direction_vector = direction r + scale cos_theta n1;
          parallel_direction =
            scale term1 (divs parallel_direction_vector (linalg_norm parallel_direction_vector));
          d = vertical_direction + parallel_direction
      in r\<lparr>direction := divs d (linalg_norm d)\<rparr>)"

text \<open>
  \<open>interaction\<close> returns \<open>None\<close> or the new position, and the ray as it leaves it.
\<close>

definition interaction :: "Ray \<Rightarrow> arr \<Rightarrow> arr \<Rightarrow> arr option \<times> Ray" where
  "interaction r n P =
     (let n1 = divs n (linalg_norm n);
          denominator = dot (direction r) n1
      in if \<bar>denominator\<bar> < Fin (1 / 10 ^ 10) then (None, r)
         else let t = dot (P - position r) n1 / denominator
              in if t < Fin 0 then (None, r)
                 else let r1 = r\<lparr>position := point_at_parameter r t\<rparr>
                      in (Some (position r1), r1))"

text \<open>\<open>scan\<close> drops what its two calls of \<open>interaction\<close> return.\<close>

definition scan ::
  "Ray \<Rightarrow> arr \<Rightarrow> arr \<Rightarrow> arr \<Rightarrow> arr \<Rightarrow> arr \<Rightarrow> arr \<Rightarrow> npfloat \<Rightarrow> npfloat \<Rightarrow> Ray" where
  "scan r Px1 Px2 nx ny nx_rotation ny_rotation x_angle y_angle =
     (let nx1 = divs nx (linalg_norm nx);
          ny1 = divs ny (linalg_norm ny);
          nx_rotation1 = divs nx_rotation (linalg_norm nx_rotation);
          ny_rotation1 = divs ny_rotation (linalg_norm ny_rotation);
          x_angle_pi = x_angle * np_pi / Fin 180;
          y_angle_pi = y_angle * np_pi / Fin 180;
          nx_after = rotate_vector_around_axis nx1 nx_rotation1 x_angle_pi;
          ny_after = rotate_vector_around_axis ny1 ny_rotation1 y_angle_pi;
          r1 = snd (interaction r nx_after Px1);
          r2 = reflection r1 nx_after;
          r3 = snd (interaction r2 ny_after Px2)
      in reflection r3 ny_after)"

section \<open>MutiAxisParam.py\<close>

text \<open>
  The class \<open>MultiAxisGalvanometer\<close>. Its attribute \<open>ray\<close> is \<open>None\<close> until \<open>set_ray\<close>;
  a method that uses it before raises \<open>AttributeError\<close>.
\<close>

datatype error = AttributeError

record MultiAxisGalvanometer =
  focus_distance :: npfloat
  galvo_gap :: npfloat
  ray :: "Ray option"

definition MultiAxisGalvanometer_init :: "npfloat \<Rightarrow> npfloat \<Rightarrow> MultiAxisGalvanometer" where
  "MultiAxisGalvanometer_init fd gap = \<lparr>focus_distance = fd, galvo_gap = gap, ray = None\<rparr>"

definition set_ray :: "MultiAxisGalvanometer \<Rightarrow> Ray \<Rightarrow> MultiAxisGalvanometer" where
  "set_ray m r = m\<lparr>ray := Some r\<rparr>"

definition reflect :: "MultiAxisGalvanometer \<Rightarrow> arr \<Rightarrow> arr \<Rightarrow> error + MultiAxisGalvanometer" where
  "reflect m normal point =
     (case ray m of
        None \<Rightarrow> Inl AttributeError
      | Some r \<Rightarrow>
          let r1 = snd (interaction r normal point);
              r2 = reflection r1 normal
          in Inr (m\<lparr>ray := Some r2\<rparr>))"

definition galvo_scan ::
  "MultiAxisGalvanometer \<Rightarrow> arr \<Rightarrow> arr \<Rightarrow> arr \<Rightarrow> arr \<Rightarrow> arr \<Rightarrow> arr \<Rightarrow> npfloat \<Rightarrow> npfloat
     \<Rightarrow> error + MultiAxisGalvanometer" where
  "galvo_scan m Px1 Px2 nx ny nx_rotation ny_rotation x_angle y_angle =
     (case ray m of
        None \<Rightarrow> Inl AttributeError
      | Some r \<Rightarrow>
          Inr (m\<lparr>ray := Some (scan r Px1 Px2 nx ny nx_rotation ny_rotation x_angle y_angle)\<rparr>))"

definition refract ::
  "MultiAxisGalvanometer \<Rightarrow> arr \<Rightarrow> arr \<Rightarrow> npfloat \<Rightarrow> error + MultiAxisGalvanometer" where
  "refract m normal point k =
     (case ray m of
        None \<Rightarrow> Inl AttributeError
      | Some r \<Rightarrow>
          let r1 = snd (interaction r normal point);
              r2 = refraction r1 k normal
          in Inr (m\<lparr>ray := Some r2\<rparr>))"

text \<open>\<open>trace\<close> calls \<open>refract\<close> with its default \<open>k = -1\<close>.\<close>

definition trace ::
  "MultiAxisGalvanometer \<Rightarrow> npfloat \<Rightarrow> npfloat \<Rightarrow> error + (arr option \<times> MultiAxisGalvanometer)" where
  "trace m X_angle Y_angle =
     (let n1 = Arr (Fin 0) (Fin 1) (Fin (- 1));
          P1 = Arr (Fin 0) (Fin 20) (Fin 0)
      in case reflect m n1 P1 of Inl e \<Rightarrow> Inl e | Inr m1 \<Rightarrow>
         let n2 = Arr (Fin 0) (Fin 1) (Fin (- 1));
             P2 = Arr (Fin 0) (Fin 20) (Fin 200)
         in case reflect m1 n2 P2 of Inl e \<Rightarrow> Inl e | Inr m2 \<Rightarrow>
         let Px1 = Arr (Fin 0) (Fin 180) (Fin 200);
             Px2 = Arr (galvo_gap m2) (Fin 180) (Fin 200);
             nx = Arr (Fin (- 1)) (Fin 1) (Fin 0);
             ny = Arr (Fin 1) (Fin 0) (Fin 1);
             rx = Arr (Fin 0) (Fin 0) (Fin 1);
             ry = Arr (Fin 0) (Fin 1) (Fin 0)
         in case galvo_scan m2 Px1 Px2 nx ny rx ry X_angle Y_angle of Inl e \<Rightarrow> Inl e | Inr m3 \<Rightarrow>
         let n5 = Arr (Fin 0) (Fin 0) (Fin 1);
             P5 = Arr (galvo_gap m3) (Fin 180) (Fin 170)
         in case refract m3 n5 P5 (Fin (- 1)) of Inl e \<Rightarrow> Inl e | Inr m4 \<Rightarrow>
         let n = Arr (Fin 0) (Fin 0) (Fin 1);
             P = Arr (galvo_gap m4) (Fin 180) (Fin 170 - focus_distance m4)
         in case ray m4 of
              None \<Rightarrow> Inl AttributeError
            | Some r \<Rightarrow>
                let (intersection_point, r1) = interaction r n P
                in Inr (intersection_point, m4\<lparr>ray := Some r1\<rparr>))"

section \<open>Test_Mechnical.py\<close>

text \<open>
  The ray and the galvanometer that \<open>test\<close> builds for every sample: the ray starts at the
  origin along the y axis, the focus distance is 165 and the gap is 13.05.
\<close>

definition test_ray :: Ray where
  "test_ray = Ray_init (Arr (Fin 0) (Fin 0) (Fin 0)) (Arr (Fin 0) (Fin 1) (Fin 0))"

definition test_galvo :: MultiAxisGalvanometer where
  "test_galvo = set_ray (MultiAxisGalvanometer_init (Fin 165) (Fin (261 / 20))) test_ray"

section \<open>Vectors of reals\<close>

text \<open>
  The claims speak of vectors of real numbers. \<open>arr_of\<close> embeds such a vector into the
  program's arrays; the operations below are the usual ones of vector algebra, and the
  program's operations agree with them on the arrays that \<open>arr_of\<close> produces.
\<close>

type_synonym vec3 = "real \<times> real \<times> real"

fun arr_of :: "vec3 \<Rightarrow> arr" where
  "arr_of (x, y, z) = Arr (Fin x) (Fin y) (Fin z)"

fun vadd :: "vec3 \<Rightarrow> vec3 \<Rightarrow> vec3" where
  "vadd (a, b, c) (x, y, z) = (a + x, b + y, c + z)"

fun vsub :: "vec3 \<Rightarrow> vec3 \<Rightarrow> vec3" where
  "vsub (a, b, c) (x, y, z) = (a - x, b - y, c - z)"

fun smult :: "real \<Rightarrow> vec3 \<Rightarrow> vec3" where
  "smult s (x, y, z) = (s * x, s * y, s * z)"

fun vdot :: "vec3 \<Rightarrow> vec3 \<Rightarrow> real" where
  "vdot (a, b, c) (x, y, z) = a * x + b * y + c * z"

fun vcross :: "vec3 \<Rightarrow> vec3 \<Rightarrow> vec3" where
  "vcross (a, b, c) (x, y, z) = (b * z - c * y, c * x - a * z, a * y - b * x)"

definition vnorm :: "vec3 \<Rightarrow> real" where
  "vnorm v = sqrt (vdot v v)"

definition normalized :: "vec3 \<Rightarrow> vec3" where
  "normalized v = smult (1 / vnorm v) v"

text \<open>
  Normalisation as the specification has it: it fails on the zero vector. A failed
  normalisation is the array of three \<open>NaN\<close> in the program.
\<close>

definition normalize_opt :: "vec3 \<Rightarrow> vec3 option" where
  "normalize_opt v = (if v = (0, 0, 0) then None else Some (normalized v))"

definition arr_of_opt :: "vec3 option \<Rightarrow> arr" where
  "arr_of_opt v = (case v of None \<Rightarrow> Arr NaN NaN NaN | Some w \<Rightarrow> arr_of w)"

definition ray_of :: "vec3 \<Rightarrow> vec3 \<Rightarrow> Ray" where
  "ray_of p d = \<lparr>position = arr_of p, direction = arr_of d\<rparr>"

section \<open>The operations as the specification words them\<close>

text \<open>
  Rodrigues' formula on a unit vector \<open>v\<close> and a unit axis \<open>a\<close>:
  \<open>v cos \<theta> + (a \<times> v) sin \<theta> + a (a \<bullet> v) (1 - cos \<theta>)\<close>.
\<close>

definition spec_rodrigues :: "vec3 \<Rightarrow> vec3 \<Rightarrow> real \<Rightarrow> vec3" where
  "spec_rodrigues v a theta =
     vadd (vadd (smult (cos theta) v) (smult (sin theta) (vcross a v)))
          (smult (1 - cos theta) (smult (vdot a v) a))"

text \<open>The reflection law \<open>d - 2 (d \<bullet> n) n\<close> for a unit normal \<open>n\<close>.\<close>

definition spec_reflect :: "vec3 \<Rightarrow> vec3 \<Rightarrow> vec3" where
  "spec_reflect d n = vsub d (smult (2 * vdot d n) n)"

text \<open>
  \<open>intersect_plane\<close>: no intersection when \<open>|denom| < 1e-10\<close> or \<open>t < 0\<close>, else the point
  at parameter \<open>t\<close>.
\<close>

definition spec_intersect_plane :: "vec3 \<Rightarrow> vec3 \<Rightarrow> vec3 \<Rightarrow> vec3 \<Rightarrow> vec3 option" where
  "spec_intersect_plane p d n P =
     (let nh = normalized n;
          denom = vdot d nh
      in if \<bar>denom\<bar> < 1 / 10 ^ 10 then None
         else let t = vdot (vsub P p) nh / denom
              in if t < 0 then None else Some (vadd p (smult t d)))"

definition hit :: "vec3 \<Rightarrow> vec3 \<Rightarrow> vec3 \<Rightarrow> vec3 \<Rightarrow> vec3" where
  "hit p d n P = (case spec_intersect_plane p d n P of None \<Rightarrow> p | Some q \<Rightarrow> q)"

text \<open>The six steps of \<open>refract\<close>, with both normalisations able to fail.\<close>

definition spec_refract :: "vec3 \<Rightarrow> real \<Rightarrow> vec3 \<Rightarrow> vec3 option" where
  "spec_refract d k n =
     (let nh = normalized n;
          cosTheta = - vdot d nh;
          acosTheta = (if \<bar>cosTheta\<bar> \<ge> 1 then 0 else arccos cosTheta);
          term1 = k * acosTheta / sqrt (1 + k\<^sup>2 * acosTheta\<^sup>2);
          perpendicular = smult (- 1 / sqrt (1 + k\<^sup>2 * acosTheta\<^sup>2)) nh;
          parallel_raw = vadd d (smult cosTheta nh)
      in case normalize_opt parallel_raw of
           None \<Rightarrow> None
         | Some u \<Rightarrow> normalize_opt (vadd perpendicular (smult term1 u)))"

text \<open>
  The optical prescription as an ordered list of elements, and the trace as a fold over
  it: a fixed mirror (normal, point), a scan mirror (point, nominal normal, rotation
  axis, angle in degrees) and the field lens (normal, point, deflection parameter).
\<close>

datatype element =
    Mirror arr arr
  | ScanMirror arr arr arr npfloat
  | Lens arr arr npfloat

fun spec_stage :: "element \<Rightarrow> Ray \<Rightarrow> Ray" where
  "spec_stage (Mirror n P) r = reflection (snd (interaction r n P)) n"
| "spec_stage (ScanMirror P n axis angle_deg) r =
     (let n_rotated = rotate_vector_around_axis n axis (angle_deg * np_pi / Fin 180)
      in reflection (snd (interaction r n_rotated P)) n_rotated)"
| "spec_stage (Lens n P k) r = refraction (snd (interaction r n P)) k n"

definition spec_prescription :: "npfloat \<Rightarrow> npfloat \<Rightarrow> npfloat \<Rightarrow> element list" where
  "spec_prescription gap angleX_deg angleY_deg =
     [Mirror (Arr (Fin 0) (Fin 1) (Fin (- 1))) (Arr (Fin 0) (Fin 20) (Fin 0)),
      Mirror (Arr (Fin 0) (Fin 1) (Fin (- 1))) (Arr (Fin 0) (Fin 20) (Fin 200)),
      ScanMirror (Arr (Fin 0) (Fin 180) (Fin 200)) (Arr (Fin (- 1)) (Fin 1) (Fin 0))
        (Arr (Fin 0) (Fin 0) (Fin 1)) angleX_deg,
      ScanMirror (Arr gap (Fin 180) (Fin 200)) (Arr (Fin 1) (Fin 0) (Fin 1))
        (Arr (Fin 0) (Fin 1) (Fin 0)) angleY_deg,
      Lens (Arr (Fin 0) (Fin 0) (Fin 1)) (Arr gap (Fin 180) (Fin 170)) (Fin (- 1))]"

definition spec_run :: "element list \<Rightarrow> Ray \<Rightarrow> Ray" where
  "spec_run es r = fold spec_stage es r"

definition spec_focal_plane :: "npfloat \<Rightarrow> npfloat \<Rightarrow> arr \<times> arr" where
  "spec_focal_plane gap fd = (Arr (Fin 0) (Fin 0) (Fin 1), Arr gap (Fin 180) (Fin 170 - fd))"

section \<open>The arrays of finite numbers\<close>

lemma arr_of_inject: "arr_of u = arr_of v \<longleftrightarrow> u = v"
  by (cases u; cases v) simp

lemma arr_of_plus: "arr_of u + arr_of v = arr_of (vadd u v)"
  by (cases u; cases v) simp

lemma arr_of_minus: "arr_of u - arr_of v = arr_of (vsub u v)"
  by (cases u; cases v) simp

lemma scale_arr_of: "scale (Fin s) (arr_of v) = arr_of (smult s v)"
  by (cases v) simp

lemma dot_arr_of: "dot (arr_of u) (arr_of v) = Fin (vdot u v)"
  by (cases u; cases v) simp

lemma cross_arr_of: "cross (arr_of u) (arr_of v) = arr_of (vcross u v)"
  by (cases u; cases v) simp

lemma vdot_self_nonneg: "0 \<le> vdot v v"
  by (cases v) simp

lemma linalg_norm_arr_of: "linalg_norm (arr_of v) = Fin (vnorm v)"
  by (cases v) (simp add: vnorm_def not_less)

lemma vnorm_zero_iff: "vnorm v = 0 \<longleftrightarrow> v = (0, 0, 0)"
proof (cases v)
  case (fields a b c)
  have "a * a + b * b + c * c = 0 \<longleftrightarrow> a = 0 \<and> b = 0 \<and> c = 0"
    using sum_squares_eq_zero_iff [of a b] 
    by (smt (verit) mult_eq_0_iff not_sum_squares_lt_zero zero_le_square)
  then show ?thesis
    by (simp add: fields vnorm_def)
qed

lemma vnorm_nonneg: "0 \<le> vnorm v"
  by (simp add: vnorm_def vdot_self_nonneg)

lemma divs_arr_of: "s \<noteq> 0 \<Longrightarrow> divs (arr_of v) (Fin s) = arr_of (smult (1 / s) v)"
  by (cases v) simp

lemma divs_norm_arr_of:
  "v \<noteq> (0, 0, 0) \<Longrightarrow> divs (arr_of v) (linalg_norm (arr_of v)) = arr_of (normalized v)"
  by (simp add: linalg_norm_arr_of divs_arr_of vnorm_zero_iff normalized_def)

lemma divs_norm_zero:
  "divs (arr_of (0, 0, 0)) (linalg_norm (arr_of (0, 0, 0))) = Arr NaN NaN NaN"
  by simp

lemma linalg_norm_zero:
  "linalg_norm v = Fin 0 \<Longrightarrow> v = Arr (Fin 0) (Fin 0) (Fin 0)"
proof (cases v)
  case (Arr x y z)
  assume h: "linalg_norm v = Fin 0"
  show ?thesis
  proof (cases x; cases y; cases z)
    fix a b c assume e: "x = Fin a" "y = Fin b" "z = Fin c"
    then have "v = arr_of (a, b, c)" using Arr by simp
    with h have "vnorm (a, b, c) = 0" by (simp add: linalg_norm_arr_of del: arr_of.simps)
    then show ?thesis using e Arr by (simp add: vnorm_zero_iff)
  qed (use h Arr in simp_all)
qed

lemma vdot_smult_left: "vdot (smult s u) v = s * vdot u v"
  by (cases u; cases v) (simp add: algebra_simps)

lemma vdot_smult_right: "vdot u (smult s v) = s * vdot u v"
  by (cases u; cases v) (simp add: algebra_simps)

lemma vnorm_sq: "vnorm v * vnorm v = vdot v v"
  by (simp add: vnorm_def vdot_self_nonneg)

lemma vdot_normalized_self: "v \<noteq> (0, 0, 0) \<Longrightarrow> vdot (normalized v) (normalized v) = 1"
proof -
  assume "v \<noteq> (0, 0, 0)"
  then have nz: "vdot v v \<noteq> 0" using vnorm_zero_iff [of v] by (simp add: vnorm_def)
  have "vdot (normalized v) (normalized v) = vdot v v / (vnorm v * vnorm v)"
    by (simp add: normalized_def vdot_smult_left vdot_smult_right)
  also have "\<dots> = 1" using nz by (simp add: vnorm_sq)
  finally show ?thesis .
qed

lemma vnorm_normalized: "v \<noteq> (0, 0, 0) \<Longrightarrow> vnorm (normalized v) = 1"
  by (simp add: vnorm_def vdot_normalized_self)

section \<open>Vector algebra\<close>

lemma vdot_vadd_left: "vdot (vadd u w) x = vdot u x + vdot w x"
  by (cases u; cases w; cases x) (simp add: algebra_simps)

lemma vdot_vadd_right: "vdot x (vadd u w) = vdot x u + vdot x w"
  by (cases u; cases w; cases x) (simp add: algebra_simps)

lemma vdot_vsub_left: "vdot (vsub u w) x = vdot u x - vdot w x"
  by (cases u; cases w; cases x) (simp add: algebra_simps)

lemma vdot_commute: "vdot u v = vdot v u"
  by (cases u; cases v) simp

lemma vdot_vcross_right: "vdot (vcross a v) v = 0"
  by (cases a; cases v) (simp add: algebra_simps)

lemma vdot_vcross_left: "vdot (vcross a v) a = 0"
  by (cases a; cases v) (simp add: algebra_simps)

lemma lagrange: "vdot (vcross a v) (vcross a v) = vdot a a * vdot v v - vdot a v * vdot a v"
  by (cases a; cases v) (simp add: algebra_simps)

section \<open>The program on finite inputs\<close>

lemma rotate_arr_of:
  assumes "v \<noteq> (0, 0, 0)" "a \<noteq> (0, 0, 0)"
  shows "rotate_vector_around_axis (arr_of v) (arr_of a) (Fin theta) =
           arr_of (spec_rodrigues (normalized v) (normalized a) theta)"
  using assms
  by (simp add: rotate_vector_around_axis_def spec_rodrigues_def divs_norm_arr_of Let_def
      scale_arr_of cross_arr_of dot_arr_of arr_of_plus del: arr_of.simps)

lemma vnorm_rodrigues:
  assumes "vdot v v = 1" "vdot a a = 1"
  shows "vnorm (spec_rodrigues v a t) = 1"
proof -
  define q where "q = vdot a v"
  define c where "c = cos t"
  define s where "s = sin t"
  have sc: "s * s = 1 - c * c"
    using sin_cos_squared_add [of t] by (simp add: s_def c_def power2_eq_square)
  have va: "vdot v a = q" by (simp add: q_def vdot_commute)
  have "vdot (spec_rodrigues v a t) (spec_rodrigues v a t) =
          c * c + s * s * (1 - q * q) + (1 - c) * (1 - c) * (q * q) + 2 * (c * (1 - c) * (q * q))"
    unfolding spec_rodrigues_def
    by (simp add: vdot_vadd_left vdot_vadd_right vdot_smult_left vdot_smult_right
        vdot_vcross_left vdot_vcross_right lagrange assms va
        vdot_commute [of v "vcross a v"] vdot_commute [of a "vcross a v"]
        flip: q_def c_def s_def)
       (simp add: algebra_simps)
  also have "\<dots> = 1"
    unfolding sc by (simp add: algebra_simps)
  finally show ?thesis
    by (simp add: vnorm_def)
qed

lemma reflection_arr_of:
  assumes "n \<noteq> (0, 0, 0)" "direction r = arr_of d"
  shows "reflection r (arr_of n) = r\<lparr>direction := arr_of (spec_reflect d (normalized n))\<rparr>"
  using assms
  by (simp add: reflection_def Let_def divs_norm_arr_of dot_arr_of scale_arr_of arr_of_minus
      spec_reflect_def del: arr_of.simps)

lemma vsub_smult_cancel: "vsub (vsub d (smult s n)) (smult (- s) n) = d"
  by (cases d; cases n) simp

lemma mirror_mirror:
  assumes "vdot n n = 1"
  shows "spec_reflect (spec_reflect d n) n = d"
proof -
  have "vdot (spec_reflect d n) n = - vdot d n"
    by (simp add: spec_reflect_def vdot_vsub_left vdot_smult_left assms)
  then have "spec_reflect (spec_reflect d n) n = vsub (vsub d (smult (2 * vdot d n) n)) (smult (- (2 * vdot d n)) n)"
    by (simp add: spec_reflect_def)
  then show ?thesis
    by (simp only: vsub_smult_cancel)
qed

lemma vdot_mirror:
  assumes "vdot n n = 1"
  shows "vdot (spec_reflect d n) (spec_reflect d n) = vdot d d"
proof -
  have "vdot (spec_reflect d n) (spec_reflect d n) = vdot d d - 4 * (vdot d n * vdot d n) + 4 * (vdot d n * vdot d n) * vdot n n"
    by (cases d; cases n) (simp add: spec_reflect_def algebra_simps)
  then show ?thesis by (simp add: assms)
qed

lemma rodrigues_zero: "spec_rodrigues v a 0 = v"
  by (cases v; cases a) (simp add: spec_rodrigues_def)

lemma rodrigues_two_pi: "spec_rodrigues v a (2 * pi) = v"
  by (cases v; cases a) (simp add: spec_rodrigues_def)

lemma vcross_self: "vcross v v = (0, 0, 0)"
  by (cases v) simp

lemma rodrigues_self_gen: "spec_rodrigues v v t = smult (cos t + (1 - cos t) * vdot v v) v"
  by (cases v) (simp add: spec_rodrigues_def algebra_simps)

lemma smult_one: "smult 1 v = v"
  by (cases v) simp

lemma rodrigues_self:
  assumes "vdot v v = 1"
  shows "spec_rodrigues v v t = v"
  by (simp add: rodrigues_self_gen assms smult_one)

lemma interaction_arr_of:
  assumes "n \<noteq> (0, 0, 0)" "direction r = arr_of d" "position r = arr_of p"
  shows "interaction r (arr_of n) (arr_of P) =
           (case spec_intersect_plane p d n P of
              None \<Rightarrow> (None, r)
            | Some q \<Rightarrow> (Some (arr_of q), r\<lparr>position := arr_of q\<rparr>))"
proof (cases "vdot d (normalized n) = 0")
  case True
  then show ?thesis
    using assms
    by (simp add: interaction_def spec_intersect_plane_def Let_def divs_norm_arr_of dot_arr_of
        del: arr_of.simps)
next
  case False
  then show ?thesis
    using assms
    by (simp add: interaction_def spec_intersect_plane_def Let_def divs_norm_arr_of dot_arr_of
        arr_of_minus arr_of_plus scale_arr_of point_at_parameter_def del: arr_of.simps)
qed

lemma interaction_direction: "direction (snd (interaction r n P)) = direction r"
  by (simp add: interaction_def Let_def)

lemma interaction_None: "fst (interaction r n P) = None \<Longrightarrow> snd (interaction r n P) = r"
  by (simp add: interaction_def Let_def split: if_splits)

lemma divs_norm_arr_of_opt:
  "divs (arr_of v) (linalg_norm (arr_of v)) = arr_of_opt (normalize_opt v)"
proof (cases "v = (0, 0, 0)")
  case True
  then show ?thesis
    by (simp add: arr_of_opt_def normalize_opt_def)
next
  case False
  then show ?thesis
    by (simp add: arr_of_opt_def normalize_opt_def divs_norm_arr_of del: arr_of.simps)
qed

lemma scale_nans: "scale s (Arr NaN NaN NaN) = Arr NaN NaN NaN"
  by (cases s) simp_all

lemma plus_nans: "v + Arr NaN NaN NaN = Arr NaN NaN NaN"
  by (cases v) simp

lemma sqrt_one_plus_nonzero: "sqrt (1 + k\<^sup>2 * a\<^sup>2) \<noteq> 0"
proof -
  have "0 \<le> k\<^sup>2 * a\<^sup>2" by simp
  then have "0 < 1 + k\<^sup>2 * a\<^sup>2" by linarith
  then show ?thesis by simp
qed

lemma np_sqrt_one_plus:
  "np_sqrt (Fin 1 + sq (Fin k) * sq (Fin a)) = Fin (sqrt (1 + k\<^sup>2 * a\<^sup>2))"
proof -
  have "0 \<le> k\<^sup>2 * a\<^sup>2" by simp
  then have "\<not> 1 + k\<^sup>2 * a\<^sup>2 < 0" by linarith
  then show ?thesis by (simp add: sq_def power2_eq_square)
qed

lemma refraction_arr_of:
  assumes "n \<noteq> (0, 0, 0)" "direction r = arr_of d"
  shows "refraction r (Fin k) (arr_of n) = r\<lparr>direction := arr_of_opt (spec_refract d k n)\<rparr>"
proof -
  define nh where "nh = normalized n"
  define c where "c = - vdot d nh"
  define a where "a = (if \<bar>c\<bar> \<ge> 1 then 0 else arccos c)"
  define s where "s = sqrt (1 + k\<^sup>2 * a\<^sup>2)"
  define praw where "praw = vadd d (smult c nh)"
  have s0: "s \<noteq> 0"
    by (simp only: s_def sqrt_one_plus_nonzero not_False_eq_True)
  have A: "(if Fin 1 \<le> \<bar>- Fin (vdot d nh)\<bar> then Fin 0 else np_arccos (- Fin (vdot d nh))) = Fin a"
    by (simp add: a_def c_def)
  have S: "np_sqrt (Fin 1 + sq (Fin k) * sq (Fin a)) = Fin s"
    by (simp only: np_sqrt_one_plus s_def)
  have n1: "divs (arr_of n) (linalg_norm (arr_of n)) = arr_of nh"
    unfolding nh_def using assms(1) by (rule divs_norm_arr_of)
  have P: "arr_of d + scale (- Fin (vdot d nh)) (arr_of nh) = arr_of praw"
    by (simp add: scale_arr_of arr_of_plus praw_def c_def del: arr_of.simps)
  have V: "scale (Fin (- 1) * (Fin 1 / Fin s)) (arr_of nh) = arr_of (smult (- 1 / s) nh)"
    using s0 by (simp add: scale_arr_of del: arr_of.simps)
  have T: "Fin k * Fin a / Fin s = Fin (k * a / s)"
    using s0 by simp
  have L: "refraction r (Fin k) (arr_of n) =
        (let v = arr_of (smult (- 1 / s) nh) + scale (Fin (k * a / s)) (divs (arr_of praw) (linalg_norm (arr_of praw)))
         in r\<lparr>direction := divs v (linalg_norm v)\<rparr>)"
    unfolding refraction_def Let_def assms(2) n1 dot_arr_of A S P V T ..
  have R: "spec_refract d k n =
        (case normalize_opt praw of None \<Rightarrow> None
         | Some u \<Rightarrow> normalize_opt (vadd (smult (- 1 / s) nh) (smult (k * a / s) u)))"
    unfolding spec_refract_def Let_def
    by (fold nh_def, fold c_def, fold a_def, fold s_def, fold praw_def) (rule refl)
  show ?thesis
  proof (cases "praw = (0, 0, 0)")
    case True
    then show ?thesis
      unfolding L R divs_norm_arr_of_opt
      by (simp add: normalize_opt_def arr_of_opt_def plus_nans scale_nans Let_def del: arr_of.simps)
  next
    case False
    then show ?thesis
      unfolding L R divs_norm_arr_of_opt
      by (simp add: normalize_opt_def arr_of_opt_def scale_arr_of arr_of_plus Let_def
          divs_norm_arr_of_opt del: arr_of.simps)
  qed
qed

lemma vdot_zero_left: "vdot (0, 0, 0) v = 0"
  by (cases v) simp

lemma refract_direction_unit:
  assumes "n \<noteq> (0, 0, 0)"
    and "vadd d (smult (- vdot d (normalized n)) (normalized n)) \<noteq> (0, 0, 0)"
  shows "\<exists>e. spec_refract d k n = Some e \<and> vnorm e = 1"
proof -
  define nh where "nh = normalized n"
  define c where "c = - vdot d nh"
  define a where "a = (if \<bar>c\<bar> \<ge> 1 then 0 else arccos c)"
  define s where "s = sqrt (1 + k\<^sup>2 * a\<^sup>2)"
  define praw where "praw = vadd d (smult c nh)"
  define w where "w = vadd (smult (- 1 / s) nh) (smult (k * a / s) (normalized praw))"
  have s0: "s \<noteq> 0"
    by (simp only: s_def sqrt_one_plus_nonzero not_False_eq_True)
  have nn: "vdot nh nh = 1"
    unfolding nh_def using assms(1) by (rule vdot_normalized_self)
  have pz: "praw \<noteq> (0, 0, 0)"
    unfolding praw_def c_def nh_def by (rule assms(2))
  have "vdot praw nh = 0"
    by (simp add: praw_def vdot_vadd_left vdot_smult_left nn c_def)
  then have "vdot (normalized praw) nh = 0"
    by (simp add: normalized_def vdot_smult_left)
  then have "vdot w nh = - 1 / s"
    by (simp add: w_def vdot_vadd_left vdot_smult_left nn)
  then have "vdot w nh \<noteq> 0"
    using s0 by simp
  then have wz: "w \<noteq> (0, 0, 0)"
    using vdot_zero_left [of nh] by auto
  have R: "spec_refract d k n =
        (case normalize_opt praw of None \<Rightarrow> None
         | Some u \<Rightarrow> normalize_opt (vadd (smult (- 1 / s) nh) (smult (k * a / s) u)))"
    unfolding spec_refract_def Let_def
    by (fold nh_def, fold c_def, fold a_def, fold s_def, fold praw_def) (rule refl)
  have "spec_refract d k n = Some (normalized w)"
    unfolding R using pz wz by (simp add: normalize_opt_def w_def)
  moreover have "vnorm (normalized w) = 1"
    using wz by (rule vnorm_normalized)
  ultimately show ?thesis by blast
qed

lemma unit_direction_arr_of:
  assumes "linalg_norm v = Fin 1"
  shows "\<exists>d. v = arr_of d \<and> vnorm d = 1"
proof (cases v)
  case (Arr x y z)
  show ?thesis
  proof (cases x; cases y; cases z)
    fix a b c assume e: "x = Fin a" "y = Fin b" "z = Fin c"
    then have v: "v = arr_of (a, b, c)" using Arr by simp
    with assms have "vnorm (a, b, c) = 1"
      by (simp add: linalg_norm_arr_of del: arr_of.simps)
    with v show ?thesis by blast
  qed (use assms Arr in simp_all)
qed

lemma unit_nonzero: "vnorm d = 1 \<Longrightarrow> d \<noteq> (0, 0, 0)"
  using vnorm_zero_iff [of d] by auto

lemma Ray_init_unit:
  "d \<noteq> (0, 0, 0) \<Longrightarrow> linalg_norm (direction (Ray_init p (arr_of d))) = Fin 1"
  by (simp add: Ray_init_def divs_norm_arr_of del: arr_of.simps)
     (simp add: linalg_norm_arr_of vnorm_normalized)

lemma move_direction: "direction (move r L) = direction r"
  by (simp add: move_def)

lemma vnorm_mirror: "vdot n n = 1 \<Longrightarrow> vnorm (spec_reflect d n) = vnorm d"
  by (simp add: vnorm_def vdot_mirror)

lemma reflection_unit:
  assumes "linalg_norm (direction r) = Fin 1" "n \<noteq> (0, 0, 0)"
  shows "linalg_norm (direction (reflection r (arr_of n))) = Fin 1"
proof -
  obtain d where d: "direction r = arr_of d" "vnorm d = 1"
    using unit_direction_arr_of [OF assms(1)] by blast
  show ?thesis
    using assms(2) d
    by (simp add: reflection_arr_of [OF assms(2) d(1)] linalg_norm_arr_of vnorm_mirror
        vdot_normalized_self del: arr_of.simps)
qed

lemma refraction_unit:
  assumes "direction r = arr_of d" "n \<noteq> (0, 0, 0)"
    and "vadd d (smult (- vdot d (normalized n)) (normalized n)) \<noteq> (0, 0, 0)"
  shows "linalg_norm (direction (refraction r (Fin k) (arr_of n))) = Fin 1"
proof -
  obtain e where e: "spec_refract d k n = Some e" "vnorm e = 1"
    using refract_direction_unit [OF assms(2,3)] by blast
  show ?thesis
    by (simp add: refraction_arr_of [OF assms(2,1)] e arr_of_opt_def linalg_norm_arr_of
        del: arr_of.simps)
qed

lemma rotate_nonzero:
  assumes "v \<noteq> (0, 0, 0)" "a \<noteq> (0, 0, 0)"
  shows "\<exists>w. rotate_vector_around_axis (arr_of v) (arr_of a) (Fin t) = arr_of w \<and> w \<noteq> (0, 0, 0)"
proof -
  have "vnorm (spec_rodrigues (normalized v) (normalized a) t) = 1"
    using assms by (simp add: vnorm_rodrigues vdot_normalized_self)
  then show ?thesis
    using rotate_arr_of [OF assms] unit_nonzero by blast
qed

lemma scan_unit:
  assumes "linalg_norm (direction r) = Fin 1"
    and "nx \<noteq> (0, 0, 0)" "ny \<noteq> (0, 0, 0)" "ax \<noteq> (0, 0, 0)" "ay \<noteq> (0, 0, 0)"
  shows "linalg_norm (direction (scan r Px1 Px2 (arr_of nx) (arr_of ny) (arr_of ax) (arr_of ay)
            (Fin x) (Fin y))) = Fin 1"
proof -
  have nz: "normalized nx \<noteq> (0, 0, 0)" "normalized ny \<noteq> (0, 0, 0)"
    "normalized ax \<noteq> (0, 0, 0)" "normalized ay \<noteq> (0, 0, 0)"
    using assms(2-5) by (simp_all add: unit_nonzero vnorm_normalized)
  obtain wx where wx:
    "rotate_vector_around_axis (arr_of (normalized nx)) (arr_of (normalized ax)) (Fin (x * pi / 180)) = arr_of wx"
    "wx \<noteq> (0, 0, 0)"
    using rotate_nonzero [OF nz(1) nz(3)] by blast
  obtain wy where wy:
    "rotate_vector_around_axis (arr_of (normalized ny)) (arr_of (normalized ay)) (Fin (y * pi / 180)) = arr_of wy"
    "wy \<noteq> (0, 0, 0)"
    using rotate_nonzero [OF nz(2) nz(4)] by blast
  have S: "scan r Px1 Px2 (arr_of nx) (arr_of ny) (arr_of ax) (arr_of ay) (Fin x) (Fin y) =
        reflection (snd (interaction (reflection (snd (interaction r (arr_of wx) Px1)) (arr_of wx))
          (arr_of wy) Px2)) (arr_of wy)"
    using assms(2-5)
    by (simp add: scan_def Let_def divs_norm_arr_of np_pi_def wx wy del: arr_of.simps)
  have 1: "linalg_norm (direction (snd (interaction r (arr_of wx) Px1))) = Fin 1"
    using assms(1) by (simp only: interaction_direction)
  have 2: "linalg_norm (direction (reflection (snd (interaction r (arr_of wx) Px1)) (arr_of wx))) = Fin 1"
    using 1 wx(2) by (rule reflection_unit)
  have 3: "linalg_norm (direction (snd (interaction
      (reflection (snd (interaction r (arr_of wx) Px1)) (arr_of wx)) (arr_of wy) Px2))) = Fin 1"
    using 2 by (simp only: interaction_direction)
  show ?thesis
    unfolding S using 3 wy(2) by (rule reflection_unit)
qed

section \<open>The trace as a sequence of stages\<close>

lemma divs_any_NaN: "divs v NaN = Arr NaN NaN NaN"
  by (cases v) simp

lemma divs_one: "divs (arr_of v) (Fin 1) = arr_of v"
  by (cases v) simp

lemma all_fin_or_norm_NaN: "(\<exists>w. v = arr_of w) \<or> linalg_norm v = NaN"
proof (cases v)
  case (Arr x y z)
  show ?thesis
  proof (cases x; cases y; cases z)
    fix a b c assume "x = Fin a" "y = Fin b" "z = Fin c"
    then have "v = arr_of (a, b, c)" using Arr by simp
    then show ?thesis by blast
  qed (use Arr in simp_all)
qed

lemma normalise_twice:
  "divs (divs v (linalg_norm v)) (linalg_norm (divs v (linalg_norm v))) = divs v (linalg_norm v)"
proof -
  consider w where "v = arr_of w" "w \<noteq> (0, 0, 0)" | "v = arr_of (0, 0, 0)" | "linalg_norm v = NaN"
    using all_fin_or_norm_NaN [of v] by blast
  then show ?thesis
  proof cases
    case 1
    have "divs v (linalg_norm v) = arr_of (normalized w)"
      unfolding 1(1) using 1(2) by (rule divs_norm_arr_of)
    moreover have "linalg_norm (arr_of (normalized w)) = Fin 1"
      using 1(2) by (simp add: linalg_norm_arr_of vnorm_normalized)
    ultimately show ?thesis
      by (simp add: divs_one del: arr_of.simps)
  next
    case 2
    then show ?thesis by simp
  next
    case 3
    then show ?thesis by (simp add: divs_any_NaN)
  qed
qed

lemma rotate_normalised:
  "rotate_vector_around_axis (divs v (linalg_norm v)) (divs a (linalg_norm a)) t =
     rotate_vector_around_axis v a t"
  by (simp only: rotate_vector_around_axis_def normalise_twice)

lemma scan_stages:
  "scan r Px1 Px2 nx ny ax ay x y = spec_stage (ScanMirror Px2 ny ay y) (spec_stage (ScanMirror Px1 nx ax x) r)"
  by (simp add: scan_def Let_def rotate_normalised)

lemma trace_as_stages:
  assumes "ray m = Some r"
  shows "trace m angleX_deg angleY_deg =
           (let r5 = spec_run (spec_prescription (galvo_gap m) angleX_deg angleY_deg) r;
                (n, P) = spec_focal_plane (galvo_gap m) (focus_distance m)
            in Inr (fst (interaction r5 n P), m\<lparr>ray := Some (snd (interaction r5 n P))\<rparr>))"
  using assms
  by (simp add: trace_def reflect_def galvo_scan_def refract_def Let_def scan_stages
      spec_run_def spec_prescription_def spec_focal_plane_def split_beta)

section \<open>Evaluating a stage on a concrete ray\<close>

lemma normalized_unit: "vnorm v = 1 \<Longrightarrow> normalized v = v"
  by (simp add: normalized_def smult_one)

lemma normalized_twice: "n \<noteq> (0, 0, 0) \<Longrightarrow> normalized (normalized n) = normalized n"
  by (simp add: normalized_unit vnorm_normalized)

lemma vdot_normalized_right: "vdot d (normalized n) = vdot d n / vnorm n"
  by (simp add: normalized_def vdot_smult_right)

lemma mirror_normalized:
  "spec_reflect d (normalized n) = vsub d (smult (2 * vdot d n / vdot n n) n)"
proof -
  have "smult (2 * (vdot d n / vnorm n)) (smult (1 / vnorm n) n) = smult (2 * vdot d n / (vnorm n * vnorm n)) n"
    by (cases n) simp
  then show ?thesis
    by (simp add: spec_reflect_def vdot_normalized_right vnorm_sq) (simp add: normalized_def)
qed

lemma intersect_plane_normalized:
  "n \<noteq> (0, 0, 0) \<Longrightarrow> spec_intersect_plane p d (normalized n) P = spec_intersect_plane p d n P"
  by (simp add: spec_intersect_plane_def normalized_twice)

lemma vnorm_le_10: "vdot n n \<le> 100 \<Longrightarrow> vnorm n \<le> 10"
proof -
  assume "vdot n n \<le> 100"
  then have "sqrt (vdot n n) \<le> sqrt (10\<^sup>2)"
    by (subst real_sqrt_le_iff) simp
  then show ?thesis by (simp add: vnorm_def)
qed

lemma intersect_plane_front:
  assumes "n \<noteq> (0, 0, 0)" "vdot n n \<le> 100" "1 / 10 ^ 9 \<le> \<bar>vdot d n\<bar>"
    and "0 \<le> vdot (vsub P p) n / vdot d n"
  shows "spec_intersect_plane p d n P = Some (vadd p (smult (vdot (vsub P p) n / vdot d n) d))"
proof -
  have pos: "0 < vnorm n"
    using assms(1) vnorm_zero_iff [of n] vnorm_nonneg [of n] by linarith
  have le: "vnorm n \<le> 10"
    using assms(2) by (rule vnorm_le_10)
  have "vnorm n / 10 ^ 10 \<le> 1 / 10 ^ 9"
    using le by simp
  then have "vnorm n / 10 ^ 10 \<le> \<bar>vdot d n\<bar>"
    using assms(3) by linarith
  then have g: "\<not> \<bar>vdot d n\<bar> / vnorm n < 1 / 10 ^ 10"
    using pos by (simp add: field_simps)
  have t: "vdot (vsub P p) n / vnorm n / (vdot d n / vnorm n) = vdot (vsub P p) n / vdot d n"
    using pos by simp
  show ?thesis
    using g assms(4) pos
    by (simp add: spec_intersect_plane_def Let_def vdot_normalized_right t)
qed

lemma intersect_plane_behind:
  assumes "n \<noteq> (0, 0, 0)" "vdot (vsub P p) n / vdot d n < 0"
  shows "spec_intersect_plane p d n P = None"
proof -
  have pos: "0 < vnorm n"
    using assms(1) vnorm_zero_iff [of n] vnorm_nonneg [of n] by linarith
  have t: "vdot (vsub P p) n / vnorm n / (vdot d n / vnorm n) = vdot (vsub P p) n / vdot d n"
    using pos by simp
  show ?thesis
    using assms(2) by (simp add: spec_intersect_plane_def Let_def vdot_normalized_right t)
qed

lemma interaction_ray_of:
  assumes "n \<noteq> (0, 0, 0)"
  shows "interaction (ray_of p d) (arr_of n) (arr_of P) =
           (map_option arr_of (spec_intersect_plane p d n P), ray_of (hit p d n P) d)"
  using interaction_arr_of [OF assms, of "ray_of p d" d p P]
  by (simp add: ray_of_def hit_def split: option.splits del: arr_of.simps)

lemma reflection_ray_of:
  assumes "n \<noteq> (0, 0, 0)"
  shows "reflection (ray_of p d) (arr_of n) = ray_of p (spec_reflect d (normalized n))"
  using reflection_arr_of [OF assms, of "ray_of p d" d]
  by (simp add: ray_of_def del: arr_of.simps)

lemma stage_Mirror_ray_of:
  assumes "n \<noteq> (0, 0, 0)"
  shows "spec_stage (Mirror (arr_of n) (arr_of P)) (ray_of p d) =
           ray_of (hit p d n P) (spec_reflect d (normalized n))"
  using assms by (simp add: interaction_ray_of reflection_ray_of del: arr_of.simps)

lemma stage_ScanMirror_zero_ray_of:
  assumes "n \<noteq> (0, 0, 0)" "a \<noteq> (0, 0, 0)"
  shows "spec_stage (ScanMirror (arr_of P) (arr_of n) (arr_of a) (Fin 0)) (ray_of p d) =
           ray_of (hit p d n P) (spec_reflect d (normalized n))"
proof -
  have nz: "normalized n \<noteq> (0, 0, 0)"
    using assms(1) by (simp add: unit_nonzero vnorm_normalized)
  have "rotate_vector_around_axis (arr_of n) (arr_of a) (Fin 0 * np_pi / Fin 180) = arr_of (normalized n)"
    using assms by (simp add: np_pi_def rotate_arr_of rodrigues_zero del: arr_of.simps)
  then show ?thesis
    using assms nz
    by (simp add: interaction_ray_of reflection_ray_of hit_def intersect_plane_normalized
        normalized_twice del: arr_of.simps)
qed

lemma stage_Lens_ray_of:
  assumes "n \<noteq> (0, 0, 0)"
  shows "spec_stage (Lens (arr_of n) (arr_of P) (Fin k)) (ray_of p d) =
           \<lparr>position = arr_of (hit p d n P), direction = arr_of_opt (spec_refract d k n)\<rparr>"
  using assms refraction_arr_of [OF assms, of "ray_of (hit p d n P) d" d k]
  by (simp add: interaction_ray_of del: arr_of.simps) (simp add: ray_of_def)

lemma Ray_init_ray_of:
  "d \<noteq> (0, 0, 0) \<Longrightarrow> Ray_init (arr_of p) (arr_of d) = ray_of p (normalized d)"
  by (simp add: Ray_init_def ray_of_def divs_norm_arr_of del: arr_of.simps)

lemma arr_fold: "Arr (Fin x) (Fin y) (Fin z) = arr_of (x, y, z)"
  by simp

lemma sqrt_25: "sqrt 25 = 5"
  by (rule real_sqrt_unique) simp_all

lemma sqrt_9_25: "sqrt (9 / 25) = 3 / 5"
  by (rule real_sqrt_unique) (simp_all add: power2_eq_square)

lemma refract_example:
  "spec_refract (- 3 / 5, 0, - 4 / 5) (- 1) (0, 0, 1) =
     Some (arccos (4 / 5) / sqrt (1 + (arccos (4 / 5))\<^sup>2), 0, - 1 / sqrt (1 + (arccos (4 / 5))\<^sup>2))"
proof -
  define a where "a = arccos (4 / 5 :: real)"
  define s where "s = sqrt (1 + a\<^sup>2)"
  have spos: "0 < s"
    unfolding s_def by (smt (verit) real_sqrt_gt_zero zero_le_power2)
  have ss: "s * s = 1 + a * a"
    unfolding s_def by (smt (verit) real_sqrt_mult_self zero_le_power2 power2_eq_square)
  have n: "normalized (0, 0, 1) = (0, 0, 1)"
    by (simp add: normalized_def vnorm_def)
  have p: "normalized (- (3 / 5), 0, 0) = (- 1, 0, 0)"
    by (simp add: normalized_def vnorm_def sqrt_9_25)
  have "(a / s) * (a / s) + (1 / s) * (1 / s) = (1 + a * a) / (s * s)"
    by (simp add: add_divide_distrib)
  also have "\<dots> = 1"
    using spos ss by (metis divide_self_if less_irrefl mult_eq_0_iff)
  finally have "vdot (a / s, 0, - 1 / s) (a / s, 0, - 1 / s) = 1"
    by simp
  then have w: "normalized (a / s, 0, - 1 / s) = (a / s, 0, - 1 / s)"
    by (simp add: normalized_unit vnorm_def del: vdot.simps)
  have wz: "(a / s, 0, - 1 / s) \<noteq> (0, 0, 0)"
    using spos by simp
  have "spec_refract (- 3 / 5, 0, - 4 / 5) (- 1) (0, 0, 1) = Some (a / s, 0, - 1 / s)"
    unfolding spec_refract_def Let_def n
    using wz w by (simp add: normalize_opt_def p flip: a_def s_def)
  then show ?thesis
    by (simp only: a_def s_def)
qed

lemma hit_front:
  assumes "n \<noteq> (0, 0, 0)" "vdot n n \<le> 100" "1 / 10 ^ 9 \<le> \<bar>vdot d n\<bar>"
    and "0 \<le> vdot (vsub P p) n / vdot d n"
  shows "hit p d n P = vadd p (smult (vdot (vsub P p) n / vdot d n) d)"
  by (simp add: hit_def intersect_plane_front [OF assms])

lemma hit_behind:
  assumes "n \<noteq> (0, 0, 0)" "vdot (vsub P p) n / vdot d n < 0"
  shows "hit p d n P = p"
  by (simp add: hit_def intersect_plane_behind [OF assms])

lemma normalized_043: "normalized (0, 4, 3) = (0, 4 / 5, 3 / 5)"
  by (simp add: normalized_def vnorm_def sqrt_25)

lemma arccos_le_4: "arccos (4 / 5) \<le> 4"
proof -
  have "arccos (4 / 5 :: real) \<le> pi" by (rule arccos_ubound) simp_all
  moreover have "pi \<le> 4" using pi_less_4 by simp
  ultimately show ?thesis by linarith
qed

section \<open>The test ray\<close>

lemma test_ray_fields:
  "position test_ray = arr_of (0, 0, 0)" "direction test_ray = arr_of (0, 1, 0)"
  by (simp_all add: test_ray_def Ray_init_def)

lemma test_galvo_fields:
  "ray test_galvo = Some test_ray" "galvo_gap test_galvo = Fin (261 / 20)"
  "focus_distance test_galvo = Fin 165"
  by (simp_all add: test_galvo_def set_ray_def MultiAxisGalvanometer_init_def)

lemma test_ray_parallel:
  "fst (interaction test_ray (Arr (Fin 0) (Fin 0) (Fin 1)) (Arr (Fin 0) (Fin 0) (Fin 5))) = None"
  by (simp add: test_ray_def Ray_init_def interaction_def Let_def)


lemma normalized_eq_self_iff:
  assumes "v \<noteq> (0, 0, 0)"
  shows "normalized v = v \<longleftrightarrow> vnorm v = 1"
proof
  assume "normalized v = v"
  then have "vnorm v = vnorm (normalized v)" by simp
  then show "vnorm v = 1" using assms by (simp add: vnorm_normalized)
next
  assume "vnorm v = 1"
  then show "normalized v = v" by (rule normalized_unit)
qed

section \<open>The claims\<close>

subsection \<open>C1: the six stages of \<open>trace\<close>\<close>

text \<open>
  C1. For every focus distance, gap and bound ray, \<open>trace\<close> runs the stages of
  \<open>spec_prescription\<close> in their order: the two fixed mirrors with normal \<open>(0, 1, -1)\<close>
  through \<open>(0, 20, 0)\<close> and \<open>(0, 20, 200)\<close>, the scan mirror at \<open>(0, 180, 200)\<close> with
  nominal normal \<open>(-1, 1, 0)\<close> about \<open>(0, 0, 1)\<close> by the first angle, the scan mirror at
  \<open>(gap, 180, 200)\<close> with nominal normal \<open>(1, 0, 1)\<close> about \<open>(0, 1, 0)\<close> by the second
  angle, and the lens with normal \<open>(0, 0, 1)\<close> through \<open>(gap, 180, 170)\<close> and \<open>k = -1\<close>.
  It then intersects the plane with normal \<open>(0, 0, 1)\<close> through
  \<open>(gap, 180, 170 - focus_distance)\<close> and returns what that intersection returns.
\<close>

theorem trace_six_stage_sequence:
  assumes "ray m = Some r"
  shows "trace m angleX_deg angleY_deg =
           (let r5 = spec_run (spec_prescription (galvo_gap m) angleX_deg angleY_deg) r;
                (n, P) = spec_focal_plane (galvo_gap m) (focus_distance m)
            in Inr (fst (interaction r5 n P), m\<lparr>ray := Some (snd (interaction r5 n P))\<rparr>))"
  using assms by (rule trace_as_stages)

text \<open>The theorem at the galvanometer of the test, for the angles 3 and -11.\<close>

theorem trace_six_stage_sequence_witness:
  "ray test_galvo = Some test_ray
   \<and> trace test_galvo (Fin 3) (Fin (- 11)) =
       Inr (fst (interaction (spec_run (spec_prescription (Fin (261 / 20)) (Fin 3) (Fin (- 11))) test_ray)
                   (Arr (Fin 0) (Fin 0) (Fin 1)) (Arr (Fin (261 / 20)) (Fin 180) (Fin 5))),
            test_galvo\<lparr>ray := Some (snd (interaction
                   (spec_run (spec_prescription (Fin (261 / 20)) (Fin 3) (Fin (- 11))) test_ray)
                   (Arr (Fin 0) (Fin 0) (Fin 1)) (Arr (Fin (261 / 20)) (Fin 180) (Fin 5))))\<rparr>)"
  using trace_six_stage_sequence [OF test_galvo_fields(1), of "Fin 3" "Fin (- 11)"]
  by (simp add: test_galvo_fields Let_def spec_focal_plane_def)

subsection \<open>C2: a failed intersection does not stop the trace\<close>

text \<open>
  C2, as amended. For every angle pair and bound ray, a plane intersection that fails
  in a stage does not stop \<open>trace\<close>: \<open>reflect\<close> and \<open>refract\<close> drop what \<open>interaction\<close>
  returns, so the stage leaves the position as it was and still applies its reflection
  or refraction, and every later stage is executed. \<open>trace\<close> never raises with a bound
  ray; it returns what the last intersection, with the focal plane, returns: \<open>None\<close>
  exactly when that one fails.
\<close>

theorem trace_runs_every_stage:
  assumes "ray m = Some r"
  shows "(fst (interaction r n P) = None \<longrightarrow>
            reflect m n P = Inr (m\<lparr>ray := Some (reflection r n)\<rparr>)
            \<and> refract m n P k = Inr (m\<lparr>ray := Some (refraction r k n)\<rparr>))
         \<and> (\<exists>m1. trace m X_angle Y_angle =
               Inr (fst (interaction (spec_run (spec_prescription (galvo_gap m) X_angle Y_angle) r)
                           (Arr (Fin 0) (Fin 0) (Fin 1))
                           (Arr (galvo_gap m) (Fin 180) (Fin 170 - focus_distance m))), m1))"
proof (intro conjI impI)
  assume "fst (interaction r n P) = None"
  then have "snd (interaction r n P) = r" by (rule interaction_None)
  then show "reflect m n P = Inr (m\<lparr>ray := Some (reflection r n)\<rparr>)"
    and "refract m n P k = Inr (m\<lparr>ray := Some (refraction r k n)\<rparr>)"
    using assms by (simp_all add: reflect_def refract_def)
next
  show "\<exists>m1. trace m X_angle Y_angle =
               Inr (fst (interaction (spec_run (spec_prescription (galvo_gap m) X_angle Y_angle) r)
                           (Arr (Fin 0) (Fin 0) (Fin 1))
                           (Arr (galvo_gap m) (Fin 180) (Fin 170 - focus_distance m))), m1)"
    using assms by (simp add: trace_as_stages Let_def spec_focal_plane_def)
qed

text \<open>
  The theorem at the galvanometer of the test: its ray runs along the y axis, parallel
  to the plane \<open>z = 5\<close>, so that intersection fails.
\<close>

theorem trace_runs_every_stage_witness:
  "ray test_galvo = Some test_ray
   \<and> fst (interaction test_ray (Arr (Fin 0) (Fin 0) (Fin 1)) (Arr (Fin 0) (Fin 0) (Fin 5))) = None
   \<and> reflect test_galvo (Arr (Fin 0) (Fin 0) (Fin 1)) (Arr (Fin 0) (Fin 0) (Fin 5)) =
       Inr (test_galvo\<lparr>ray := Some (reflection test_ray (Arr (Fin 0) (Fin 0) (Fin 1)))\<rparr>)
   \<and> refract test_galvo (Arr (Fin 0) (Fin 0) (Fin 1)) (Arr (Fin 0) (Fin 0) (Fin 5)) (Fin (- 1)) =
       Inr (test_galvo\<lparr>ray := Some (refraction test_ray (Fin (- 1)) (Arr (Fin 0) (Fin 0) (Fin 1)))\<rparr>)
   \<and> (\<exists>m1. trace test_galvo (Fin 0) (Fin 0) =
         Inr (fst (interaction (spec_run (spec_prescription (Fin (261 / 20)) (Fin 0) (Fin 0)) test_ray)
                     (Arr (Fin 0) (Fin 0) (Fin 1)) (Arr (Fin (261 / 20)) (Fin 180) (Fin 5))), m1))"
  using trace_runs_every_stage [OF test_galvo_fields(1),
      of "Arr (Fin 0) (Fin 0) (Fin 1)" "Arr (Fin 0) (Fin 0) (Fin 5)" "Fin (- 1)" "Fin 0" "Fin 0"]
    test_ray_parallel
  by (simp add: test_galvo_fields)

text \<open>
  C2 as the specification states it fails. A ray from \<open>(0, 130, 0)\<close> along \<open>(0, 4, 3)\<close>
  has the first mirror behind it, so the first stage's intersection fails (as do those
  of the two scan mirrors); the trace at the angles \<open>(0, 0)\<close> still returns a point of
  the focal plane \<open>z = 5\<close>.
\<close>

theorem trace_after_failed_stage:
  "fst (interaction (Ray_init (Arr (Fin 0) (Fin 130) (Fin 0)) (Arr (Fin 0) (Fin 4) (Fin 3)))
          (Arr (Fin 0) (Fin 1) (Fin (- 1))) (Arr (Fin 0) (Fin 20) (Fin 0))) = None
   \<and> (\<exists>m. trace \<lparr>focus_distance = Fin 165, galvo_gap = Fin (261 / 20),
                  ray = Some (Ray_init (Arr (Fin 0) (Fin 130) (Fin 0)) (Arr (Fin 0) (Fin 4) (Fin 3)))\<rparr>
             (Fin 0) (Fin 0)
           = Inr (Some (Arr (Fin (165 * arccos (4 / 5) - 1605 / 2)) (Fin 1060) (Fin 5)), m))"
proof -
  define a where "a = arccos (4 / 5 :: real)"
  define s where "s = sqrt (1 + a\<^sup>2)"
  define r0 where "r0 = Ray_init (Arr (Fin 0) (Fin 130) (Fin 0)) (Arr (Fin 0) (Fin 4) (Fin 3))"
  have spos: "0 < s"
    unfolding s_def by (smt (verit) real_sqrt_gt_zero zero_le_power2)
  have a0: "0 \<le> a"
    unfolding a_def by (rule arccos_lbound) simp_all
  have a4: "a \<le> 4"
    unfolding a_def by (rule arccos_le_4)
  have "a * a \<le> 4 * 4"
    using a0 a4 by (intro mult_mono) simp_all
  then have "1 + a\<^sup>2 \<le> 5\<^sup>2"
    by (simp add: power2_eq_square)
  then have "s \<le> sqrt (5\<^sup>2)"
    unfolding s_def by (rule real_sqrt_le_mono)
  then have s5: "s \<le> 5" by simp
  have r0: "r0 = ray_of (0, 130, 0) (0, 4 / 5, 3 / 5)"
    unfolding r0_def arr_fold by (simp add: Ray_init_ray_of normalized_043 del: arr_of.simps)
  have i1: "spec_intersect_plane (0, 130, 0) (0, 4 / 5, 3 / 5) (0, 1, - 1) (0, 20, 0) = None"
    by (rule intersect_plane_behind) simp_all
  have f1: "fst (interaction r0 (Arr (Fin 0) (Fin 1) (Fin (- 1))) (Arr (Fin 0) (Fin 20) (Fin 0))) = None"
    unfolding r0 arr_fold by (simp add: interaction_ray_of i1 del: arr_of.simps)
  have s1: "spec_stage (Mirror (arr_of (0, 1, - 1)) (arr_of (0, 20, 0))) r0 = ray_of (0, 130, 0) (0, 3 / 5, 4 / 5)"
    unfolding r0
    by (simp add: stage_Mirror_ray_of mirror_normalized hit_behind del: arr_of.simps spec_stage.simps)
  have s2: "spec_stage (Mirror (arr_of (0, 1, - 1)) (arr_of (0, 20, 200))) (ray_of (0, 130, 0) (0, 3 / 5, 4 / 5))
              = ray_of (0, 1060, 1240) (0, 4 / 5, 3 / 5)"
    by (simp add: stage_Mirror_ray_of mirror_normalized hit_front del: arr_of.simps spec_stage.simps)
  have s3: "spec_stage (ScanMirror (arr_of (0, 180, 200)) (arr_of (- 1, 1, 0)) (arr_of (0, 0, 1)) (Fin 0))
              (ray_of (0, 1060, 1240) (0, 4 / 5, 3 / 5)) = ray_of (0, 1060, 1240) (4 / 5, 0, 3 / 5)"
    by (simp add: stage_ScanMirror_zero_ray_of mirror_normalized hit_behind del: arr_of.simps spec_stage.simps)
  have s4: "spec_stage (ScanMirror (arr_of (261 / 20, 180, 200)) (arr_of (1, 0, 1)) (arr_of (0, 1, 0)) (Fin 0))
              (ray_of (0, 1060, 1240) (4 / 5, 0, 3 / 5)) = ray_of (0, 1060, 1240) (- 3 / 5, 0, - 4 / 5)"
    by (simp add: stage_ScanMirror_zero_ray_of mirror_normalized hit_behind del: arr_of.simps spec_stage.simps)
  have s5': "spec_stage (Lens (arr_of (0, 0, 1)) (arr_of (261 / 20, 180, 170)) (Fin (- 1)))
              (ray_of (0, 1060, 1240) (- 3 / 5, 0, - 4 / 5))
              = ray_of (- 1605 / 2, 1060, 170) (a / s, 0, - 1 / s)"
  proof -
    have nz: "(0, 0, 1 :: real) \<noteq> (0, 0, 0)"
      by simp
    have h: "hit (0, 1060, 1240) (- 3 / 5, 0, - 4 / 5) (0, 0, 1) (261 / 20, 180, 170) = (- 1605 / 2, 1060, 170)"
      by (simp add: hit_front)
    show ?thesis
      unfolding stage_Lens_ray_of [OF nz] refract_example h
      by (simp add: arr_of_opt_def ray_of_def a_def s_def)
  qed
  have run: "spec_run (spec_prescription (Fin (261 / 20)) (Fin 0) (Fin 0)) r0
              = ray_of (- 1605 / 2, 1060, 170) (a / s, 0, - 1 / s)"
    by (simp only: spec_run_def spec_prescription_def arr_fold fold.simps comp_apply id_apply
        s1 s2 s3 s4 s5')
  have "1 / 10 ^ 9 \<le> 1 / s"
    using spos s5 by (simp add: field_simps)
  then have i6: "spec_intersect_plane (- 1605 / 2, 1060, 170) (a / s, 0, - 1 / s) (0, 0, 1) (261 / 20, 180, 5)
               = Some (165 * a - 1605 / 2, 1060, 5)"
    using spos by (subst intersect_plane_front) (simp_all add: field_simps)
  have fin: "fst (interaction (ray_of (- 1605 / 2, 1060, 170) (a / s, 0, - 1 / s))
               (arr_of (0, 0, 1)) (arr_of (261 / 20, 180, 5)))
             = Some (arr_of (165 * a - 1605 / 2, 1060, 5))"
  proof -
    have nz: "(0, 0, 1 :: real) \<noteq> (0, 0, 0)"
      by simp
    show ?thesis
      unfolding interaction_ray_of [OF nz] i6 by simp
  qed
  define M where "M = \<lparr>focus_distance = Fin 165, galvo_gap = Fin (261 / 20), ray = Some r0\<rparr>"
  have g: "ray M = Some r0" "galvo_gap M = Fin (261 / 20)" "focus_distance M = Fin 165"
    by (simp_all add: M_def)
  have five: "Arr (Fin (261 / 20)) (Fin 180) (Fin 170 - Fin 165) = arr_of (261 / 20, 180, 5)"
    by simp
  have "trace M (Fin 0) (Fin 0) =
          Inr (Some (arr_of (165 * a - 1605 / 2, 1060, 5)),
               M\<lparr>ray := Some (snd (interaction (ray_of (- 1605 / 2, 1060, 170) (a / s, 0, - 1 / s))
                  (arr_of (0, 0, 1)) (arr_of (261 / 20, 180, 5))))\<rparr>)"
    unfolding trace_as_stages [OF g(1)] g Let_def spec_focal_plane_def prod.case run five
    unfolding arr_fold fin by (rule refl)
  then have "\<exists>m. trace M (Fin 0) (Fin 0) = Inr (Some (arr_of (165 * a - 1605 / 2, 1060, 5)), m)"
    by (rule exI)
  then show ?thesis
    using f1 by (simp add: r0_def a_def M_def)
qed

subsection \<open>C3: the direction stays a unit vector\<close>

text \<open>
  C3. In exact arithmetic the direction of a ray has norm 1 after its construction from
  a nonzero direction, and every operation keeps it so: \<open>move\<close>, \<open>interaction\<close>,
  \<open>reflection\<close> with a nonzero normal, \<open>refraction\<close> with a nonzero normal when the
  parallel component \<open>d + cosTheta n\<close> is not zero, and \<open>scan\<close> with nonzero normals and
  axes.
\<close>

theorem direction_unit_invariant:
  "(d \<noteq> (0, 0, 0) \<longrightarrow> linalg_norm (direction (Ray_init p (arr_of d))) = Fin 1)
   \<and> (linalg_norm (direction r) = Fin 1 \<longrightarrow>
        linalg_norm (direction (move r L)) = Fin 1
        \<and> linalg_norm (direction (snd (interaction r m P))) = Fin 1
        \<and> (n \<noteq> (0, 0, 0) \<longrightarrow> linalg_norm (direction (reflection r (arr_of n))) = Fin 1)
        \<and> (n \<noteq> (0, 0, 0) \<and> direction r = arr_of e
             \<and> vadd e (smult (- vdot e (normalized n)) (normalized n)) \<noteq> (0, 0, 0) \<longrightarrow>
            linalg_norm (direction (refraction r (Fin k) (arr_of n))) = Fin 1)
        \<and> (nx \<noteq> (0, 0, 0) \<and> ny \<noteq> (0, 0, 0) \<and> ax \<noteq> (0, 0, 0) \<and> ay \<noteq> (0, 0, 0) \<longrightarrow>
            linalg_norm (direction (scan r Px1 Px2 (arr_of nx) (arr_of ny) (arr_of ax) (arr_of ay)
              (Fin x_angle) (Fin y_angle))) = Fin 1))"
proof (intro conjI impI)
  assume "d \<noteq> (0, 0, 0)"
  then show "linalg_norm (direction (Ray_init p (arr_of d))) = Fin 1"
    by (rule Ray_init_unit)
next
  assume u: "linalg_norm (direction r) = Fin 1"
  show "linalg_norm (direction (move r L)) = Fin 1"
    using u by (simp only: move_direction)
  show "linalg_norm (direction (snd (interaction r m P))) = Fin 1"
    using u by (simp only: interaction_direction)
  show "linalg_norm (direction (reflection r (arr_of n))) = Fin 1" if "n \<noteq> (0, 0, 0)"
    using u that by (rule reflection_unit)
  show "linalg_norm (direction (refraction r (Fin k) (arr_of n))) = Fin 1"
    if "n \<noteq> (0, 0, 0) \<and> direction r = arr_of e
        \<and> vadd e (smult (- vdot e (normalized n)) (normalized n)) \<noteq> (0, 0, 0)"
    using that refraction_unit [of r e n k] by blast
  show "linalg_norm (direction (scan r Px1 Px2 (arr_of nx) (arr_of ny) (arr_of ax) (arr_of ay)
          (Fin x_angle) (Fin y_angle))) = Fin 1"
    if "nx \<noteq> (0, 0, 0) \<and> ny \<noteq> (0, 0, 0) \<and> ax \<noteq> (0, 0, 0) \<and> ay \<noteq> (0, 0, 0)"
    using that scan_unit [OF u, of nx ny ax ay] by blast
qed

text \<open>The theorem at the ray of the test and the mirrors of the prescription.\<close>

theorem direction_unit_invariant_witness:
  "(0, 1, 0) \<noteq> ((0, 0, 0) :: vec3)
   \<and> linalg_norm (direction (Ray_init (Arr (Fin 0) (Fin 0) (Fin 0)) (arr_of (0, 1, 0)))) = Fin 1
   \<and> linalg_norm (direction test_ray) = Fin 1
   \<and> linalg_norm (direction (move test_ray (Fin 7))) = Fin 1
   \<and> linalg_norm (direction (snd (interaction test_ray (arr_of (0, 1, - 1)) (arr_of (0, 20, 0))))) = Fin 1
   \<and> (0, 0, 1) \<noteq> ((0, 0, 0) :: vec3)
   \<and> linalg_norm (direction (reflection test_ray (arr_of (0, 0, 1)))) = Fin 1
   \<and> direction test_ray = arr_of (0, 1, 0)
   \<and> vadd (0, 1, 0) (smult (- vdot (0, 1, 0) (normalized (0, 0, 1))) (normalized (0, 0, 1))) \<noteq> (0, 0, 0)
   \<and> linalg_norm (direction (refraction test_ray (Fin (- 1)) (arr_of (0, 0, 1)))) = Fin 1
   \<and> (- 1, 1, 0) \<noteq> ((0, 0, 0) :: vec3) \<and> (1, 0, 1) \<noteq> ((0, 0, 0) :: vec3)
   \<and> linalg_norm (direction (scan test_ray (arr_of (0, 180, 200)) (arr_of (261 / 20, 180, 200))
        (arr_of (- 1, 1, 0)) (arr_of (1, 0, 1)) (arr_of (0, 0, 1)) (arr_of (0, 1, 0))
        (Fin 3) (Fin (- 11)))) = Fin 1"
proof -
  have u: "linalg_norm (direction test_ray) = Fin 1"
    by (simp add: test_ray_fields)
  have nd: "vadd (0, 1, 0) (smult (- vdot (0, 1, 0) (normalized (0, 0, 1))) (normalized (0, 0, 1))) \<noteq> (0, 0, 0)"
    by (simp add: normalized_def vnorm_def)
  have nz: "(0, 1, 0) \<noteq> ((0, 0, 0) :: vec3)" "(0, 0, 1) \<noteq> ((0, 0, 0) :: vec3)"
    "(- 1, 1, 0) \<noteq> ((0, 0, 0) :: vec3)" "(1, 0, 1) \<noteq> ((0, 0, 0) :: vec3)"
    by simp_all
  note t = direction_unit_invariant [of "(0, 1, 0)" "Arr (Fin 0) (Fin 0) (Fin 0)" test_ray "Fin 7"
        "arr_of (0, 1, - 1)" "arr_of (0, 20, 0)" "(0, 0, 1)" "(0, 1, 0)" "- 1"
        "(- 1, 1, 0)" "(1, 0, 1)" "(0, 0, 1)" "(0, 1, 0)"
        "arr_of (0, 180, 200)" "arr_of (261 / 20, 180, 200)" 3 "- 11"]
  show ?thesis
    using t u nd nz test_ray_fields(2) by blast
qed

subsection \<open>C4: \<open>interaction\<close>\<close>

text \<open>
  C4. For a ray at \<open>p\<close> with direction \<open>d\<close>, a nonzero normal \<open>n\<close> and a point \<open>P\<close>,
  \<open>interaction\<close> returns \<open>None\<close> and leaves the ray as it is exactly when
  \<open>|d \<bullet> n / |n|| < 1e-10\<close> or \<open>t = ((P - p) \<bullet> n / |n|) / (d \<bullet> n / |n|)\<close> is negative;
  otherwise it moves the position to \<open>p + t d\<close> and returns that position.
\<close>

theorem interaction_result:
  assumes "n \<noteq> (0, 0, 0)" "direction r = arr_of d" "position r = arr_of p"
  shows "interaction r (arr_of n) (arr_of P) =
           (if \<bar>vdot d (normalized n)\<bar> < 1 / 10 ^ 10
               \<or> vdot (vsub P p) (normalized n) / vdot d (normalized n) < 0
            then (None, r)
            else (Some (arr_of (vadd p (smult (vdot (vsub P p) (normalized n) / vdot d (normalized n)) d))),
                  r\<lparr>position :=
                      arr_of (vadd p (smult (vdot (vsub P p) (normalized n) / vdot d (normalized n)) d))\<rparr>))"
  unfolding interaction_arr_of [OF assms]
  by (simp add: spec_intersect_plane_def Let_def)

text \<open>
  The theorem for a ray going down from \<open>z = 170\<close>: it meets the plane \<open>z = 5\<close>, and the
  plane \<open>z = 200\<close> is behind it.
\<close>

theorem interaction_result_witness:
  "(0, 0, 1) \<noteq> ((0, 0, 0) :: vec3)
   \<and> direction (ray_of (0, 0, 170) (0, 0, - 1)) = arr_of (0, 0, - 1)
   \<and> position (ray_of (0, 0, 170) (0, 0, - 1)) = arr_of (0, 0, 170)
   \<and> interaction (ray_of (0, 0, 170) (0, 0, - 1)) (arr_of (0, 0, 1)) (arr_of (0, 0, 5)) =
       (Some (arr_of (0, 0, 5)), ray_of (0, 0, 5) (0, 0, - 1))
   \<and> interaction (ray_of (0, 0, 170) (0, 0, - 1)) (arr_of (0, 0, 1)) (arr_of (0, 0, 200)) =
       (None, ray_of (0, 0, 170) (0, 0, - 1))"
proof -
  have nz: "(0, 0, 1) \<noteq> ((0, 0, 0) :: vec3)"
    by simp
  have d: "direction (ray_of (0, 0, 170) (0, 0, - 1)) = arr_of (0, 0, - 1)"
    and p: "position (ray_of (0, 0, 170) (0, 0, - 1)) = arr_of (0, 0, 170)"
    by (simp_all add: ray_of_def)
  have n: "normalized (0, 0, 1) = (0, 0, 1)"
    by (simp add: normalized_def vnorm_def)
  show ?thesis
    using interaction_result [OF nz d p, of "(0, 0, 5)"] interaction_result [OF nz d p, of "(0, 0, 200)"]
    by (simp add: n ray_of_def)
qed

subsection \<open>C5: \<open>refraction\<close>\<close>

text \<open>
  C5. For a ray with direction \<open>d\<close>, a scalar \<open>k\<close> and a nonzero normal \<open>n\<close>,
  \<open>refraction\<close> sets the direction to what the six steps of \<open>spec_refract\<close> give
  (the array of \<open>NaN\<close> where a normalisation of these steps fails) and leaves the
  position as it is.
\<close>

theorem refraction_six_steps:
  assumes "n \<noteq> (0, 0, 0)" "direction r = arr_of d"
  shows "refraction r (Fin k) (arr_of n) = r\<lparr>direction := arr_of_opt (spec_refract d k n)\<rparr>
         \<and> position (refraction r (Fin k) (arr_of n)) = position r"
  by (simp add: refraction_arr_of [OF assms])

text \<open>
  The theorem for the direction \<open>(-3/5, 0, -4/5)\<close> at the lens of the prescription: with
  \<open>a = arccos (4/5)\<close>, the new direction is \<open>(a, 0, -1) / sqrt (1 + a\<^sup>2)\<close>.
\<close>

theorem refraction_six_steps_witness:
  "(0, 0, 1) \<noteq> ((0, 0, 0) :: vec3)
   \<and> direction (ray_of (0, 1060, 170) (- 3 / 5, 0, - 4 / 5)) = arr_of (- 3 / 5, 0, - 4 / 5)
   \<and> refraction (ray_of (0, 1060, 170) (- 3 / 5, 0, - 4 / 5)) (Fin (- 1)) (arr_of (0, 0, 1)) =
       ray_of (0, 1060, 170)
         (arccos (4 / 5) / sqrt (1 + (arccos (4 / 5))\<^sup>2), 0, - 1 / sqrt (1 + (arccos (4 / 5))\<^sup>2))
   \<and> position (refraction (ray_of (0, 1060, 170) (- 3 / 5, 0, - 4 / 5)) (Fin (- 1)) (arr_of (0, 0, 1))) =
       arr_of (0, 1060, 170)"
proof -
  have nz: "(0, 0, 1) \<noteq> ((0, 0, 0) :: vec3)"
    by simp
  have d: "direction (ray_of (0, 1060, 170) (- 3 / 5, 0, - 4 / 5)) = arr_of (- 3 / 5, 0, - 4 / 5)"
    by (simp add: ray_of_def)
  have p: "position (ray_of (0, 1060, 170) (- 3 / 5, 0, - 4 / 5)) = arr_of (0, 1060, 170)"
    by (simp add: ray_of_def)
  note t = refraction_six_steps [OF nz d, of "- 1", unfolded refract_example]
  show ?thesis
    using t nz d p by (simp add: arr_of_opt_def ray_of_def)
qed

subsection \<open>C6: a ray with the zero direction\<close>

text \<open>
  C6, as amended. The construction of a ray from the zero direction raises nothing: it
  returns a ray with the given position whose direction has three \<open>NaN\<close> components
  (numpy divides 0 by 0 with a warning).
\<close>

theorem Ray_init_zero_direction:
  "Ray_init p (Arr (Fin 0) (Fin 0) (Fin 0)) = \<lparr>position = p, direction = Arr NaN NaN NaN\<rparr>"
  by (simp add: Ray_init_def)

text \<open>
  C6 as the specification states it fails: \<open>Ray((1, 2, 3), (0, 0, 0))\<close> is constructed,
  and its direction is \<open>NaN\<close> in each component.
\<close>

theorem Ray_init_zero_direction_example:
  "direction (Ray_init (Arr (Fin 1) (Fin 2) (Fin 3)) (Arr (Fin 0) (Fin 0) (Fin 0))) = Arr NaN NaN NaN"
  by (simp add: Ray_init_def)

subsection \<open>C7: the parallel component of \<open>refraction\<close>\<close>




subsection \<open>C8: rotations that change nothing\<close>

text \<open>
  C8, as amended. For every nonzero vector \<open>v\<close> and nonzero axis \<open>a\<close>,
  \<open>rotate_vector_around_axis\<close> returns \<open>v / |v|\<close> for \<open>(v, a, 0)\<close>, for \<open>(v, a, 2 pi)\<close>
  and, for every angle, for \<open>(v, v, theta)\<close>; that is \<open>v\<close> itself exactly when \<open>v\<close> is
  a unit vector.
\<close>

theorem rotate_returns_normalized:
  assumes "v \<noteq> (0, 0, 0)" "a \<noteq> (0, 0, 0)"
  shows "rotate_vector_around_axis (arr_of v) (arr_of a) (Fin 0) = arr_of (normalized v)
         \<and> rotate_vector_around_axis (arr_of v) (arr_of a) (Fin (2 * pi)) = arr_of (normalized v)
         \<and> rotate_vector_around_axis (arr_of v) (arr_of v) (Fin theta) = arr_of (normalized v)
         \<and> (arr_of (normalized v) = arr_of v) = (vnorm v = 1)"
  using assms
  by (simp add: rotate_arr_of rodrigues_zero rodrigues_two_pi rodrigues_self vdot_normalized_self
      arr_of_inject normalized_eq_self_iff del: arr_of.simps)

text \<open>The theorem at \<open>v = (0, 3, 4)\<close>, of norm 5.\<close>

theorem rotate_returns_normalized_witness:
  "(0, 3, 4) \<noteq> ((0, 0, 0) :: vec3) \<and> (0, 0, 1) \<noteq> ((0, 0, 0) :: vec3)
   \<and> rotate_vector_around_axis (arr_of (0, 3, 4)) (arr_of (0, 0, 1)) (Fin 0) = arr_of (0, 3 / 5, 4 / 5)
   \<and> rotate_vector_around_axis (arr_of (0, 3, 4)) (arr_of (0, 0, 1)) (Fin (2 * pi)) = arr_of (0, 3 / 5, 4 / 5)
   \<and> rotate_vector_around_axis (arr_of (0, 3, 4)) (arr_of (0, 3, 4)) (Fin (pi / 6)) = arr_of (0, 3 / 5, 4 / 5)
   \<and> vnorm (0, 3, 4) \<noteq> 1"
proof -
  have nz: "(0, 3, 4) \<noteq> ((0, 0, 0) :: vec3)" "(0, 0, 1) \<noteq> ((0, 0, 0) :: vec3)"
    by simp_all
  have n: "normalized (0, 3, 4) = (0, 3 / 5, 4 / 5)" "vnorm (0, 3, 4) = 5"
    by (simp_all add: normalized_def vnorm_def sqrt_25)
  show ?thesis
    using rotate_returns_normalized [OF nz, of "pi / 6"] nz
    by (simp add: n del: arr_of.simps)
qed

text \<open>
  C8 as the specification states it fails: the rotation of \<open>(2, 0, 0)\<close> about \<open>(0, 0, 1)\<close>
  by the angle 0 is \<open>(1, 0, 0)\<close>.
\<close>

theorem rotate_zero_angle_example:
  "rotate_vector_around_axis (Arr (Fin 2) (Fin 0) (Fin 0)) (Arr (Fin 0) (Fin 0) (Fin 1)) (Fin 0)
     = Arr (Fin 1) (Fin 0) (Fin 0)
   \<and> rotate_vector_around_axis (Arr (Fin 2) (Fin 0) (Fin 0)) (Arr (Fin 0) (Fin 0) (Fin 1)) (Fin 0)
     \<noteq> Arr (Fin 2) (Fin 0) (Fin 0)"
  by (simp add: rotate_vector_around_axis_def Let_def)

subsection \<open>C9: reflecting twice\<close>

text \<open>
  C9. For every ray and every nonzero normal, two calls of \<open>reflection\<close> with that normal
  give the ray back, and the position is the same after the first call.
\<close>

theorem reflection_involution:
  assumes "n \<noteq> (0, 0, 0)" "direction r = arr_of d"
  shows "reflection (reflection r (arr_of n)) (arr_of n) = r
         \<and> position (reflection r (arr_of n)) = position r"
proof -
  let ?r1 = "r\<lparr>direction := arr_of (spec_reflect d (normalized n))\<rparr>"
  have 1: "reflection r (arr_of n) = ?r1"
    using assms by (rule reflection_arr_of)
  have "reflection ?r1 (arr_of n) =
          ?r1\<lparr>direction := arr_of (spec_reflect (spec_reflect d (normalized n)) (normalized n))\<rparr>"
    using assms(1) by (rule reflection_arr_of) simp
  then have "reflection ?r1 (arr_of n) = r"
    using assms by (simp add: mirror_mirror vdot_normalized_self del: arr_of.simps)
  with 1 show ?thesis by simp
qed

text \<open>The theorem at the ray of the test and the normal of the fixed mirrors.\<close>

theorem reflection_involution_witness:
  "(0, 1, - 1) \<noteq> ((0, 0, 0) :: vec3)
   \<and> direction test_ray = arr_of (0, 1, 0)
   \<and> reflection (reflection test_ray (arr_of (0, 1, - 1))) (arr_of (0, 1, - 1)) = test_ray
   \<and> position (reflection test_ray (arr_of (0, 1, - 1))) = position test_ray"
proof -
  have nz: "(0, 1, - 1) \<noteq> ((0, 0, 0) :: vec3)"
    by simp
  show ?thesis
    using reflection_involution [OF nz test_ray_fields(2)] nz test_ray_fields(2) by blast
qed

subsection \<open>C10: the rotated vector is a unit vector\<close>

text \<open>
  C10. For every nonzero vector, nonzero axis and angle, what
  \<open>rotate_vector_around_axis\<close> returns has norm 1, which is not the norm of the input
  when that is not 1.
\<close>

theorem rotate_unit_length:
  assumes "v \<noteq> (0, 0, 0)" "a \<noteq> (0, 0, 0)"
  shows "linalg_norm (rotate_vector_around_axis (arr_of v) (arr_of a) (Fin theta)) = Fin 1
         \<and> (vnorm v \<noteq> 1 \<longrightarrow>
              linalg_norm (rotate_vector_around_axis (arr_of v) (arr_of a) (Fin theta))
                \<noteq> linalg_norm (arr_of v))"
  using assms
  by (simp add: rotate_arr_of linalg_norm_arr_of vnorm_rodrigues vdot_normalized_self
      del: arr_of.simps)

text \<open>The theorem at \<open>v = (0, 3, 4)\<close>, of norm 5, rotated about the z axis by \<open>pi / 6\<close>.\<close>

theorem rotate_unit_length_witness:
  "(0, 3, 4) \<noteq> ((0, 0, 0) :: vec3) \<and> (0, 0, 1) \<noteq> ((0, 0, 0) :: vec3)
   \<and> vnorm (0, 3, 4) \<noteq> 1
   \<and> linalg_norm (rotate_vector_around_axis (arr_of (0, 3, 4)) (arr_of (0, 0, 1)) (Fin (pi / 6))) = Fin 1
   \<and> linalg_norm (rotate_vector_around_axis (arr_of (0, 3, 4)) (arr_of (0, 0, 1)) (Fin (pi / 6)))
        \<noteq> linalg_norm (arr_of (0, 3, 4))"
proof -
  have nz: "(0, 3, 4) \<noteq> ((0, 0, 0) :: vec3)" "(0, 0, 1) \<noteq> ((0, 0, 0) :: vec3)"
    by simp_all
  have n: "vnorm (0, 3, 4) \<noteq> 1"
    by (simp add: vnorm_def sqrt_25)
  show ?thesis
    using rotate_unit_length [OF nz, of "pi / 6"] nz n by blast
qed

end
